theory Spec2Isabelle
  imports Complex_Main
begin

section \<open>The bundle pricing and validation engine\<close>

text \<open>
  A shallow embedding of \<^verbatim>\<open>app/utils/bundle.server.ts\<close>, of the shared
  \<^verbatim>\<open>formatSavings\<close> helper and of the validation blocks of the storefront and
  admin validate routes.

  Numbers. A JavaScript \<^verbatim>\<open>number\<close> is modelled as a real: a finite value with
  exact arithmetic (rounding and overflow of doubles are outside the model). A division
  whose divisor is tested to be positive is the division of the reals. The one unguarded
  division of the code (in \<^verbatim>\<open>formatSavings\<close>) goes through \<open>js_div\<close>, whose
  result can be \<^verbatim>\<open>NaN\<close> or an infinity, as in JavaScript.

  Nullable columns are options (\<open>None\<close> is \<^verbatim>\<open>null\<close>); the truthiness tests of
  the source (\<^verbatim>\<open>x && ...\<close>, \<^verbatim>\<open>if (x)\<close>) are written out: a string is truthy
  when it is present and not empty, a number when it is present and not zero.

  Strings built by template literals are kept as the list of their parts, so that the
  rendering of a number (\<^verbatim>\<open>toFixed\<close>, \<^verbatim>\<open>Intl.NumberFormat\<close>) does not have
  to be modelled: \<^verbatim>\<open>`Minimum ${n} products required`\<close> is
  \<open>[Lit ''Minimum '', Num n, Lit '' products required'']\<close>, and the empty string is \<open>[]\<close>.
\<close>

type_synonym number = real

datatype jsnum = Finite real | PosInfinity | NegInfinity | NaN

datatype part =
    Lit string
  | Num number
  | ToFixed nat jsnum
  | FormatPrice number string

type_synonym template = "part list"

text \<open>The euro sign of the labels, as its UTF-8 bytes.\<close>

definition euro :: string where
  "euro = [CHR 0xE2, CHR 0x82, CHR 0xAC]"

subsection \<open>Enumerations (\<^verbatim>\<open>app/types/bundle.ts\<close>)\<close>

text \<open>
  Bundle and discount types are stored as text columns and compared with the string values
  of the TypeScript enums, so a stored value can be outside the enum; they are strings here.
\<close>

definition FIXED :: string where "FIXED = ''FIXED''"
definition MIX_MATCH :: string where "MIX_MATCH = ''MIX_MATCH''"
definition VOLUME :: string where "VOLUME = ''VOLUME''"
definition TIERED :: string where "TIERED = ''TIERED''"

definition PERCENTAGE :: string where "PERCENTAGE = ''percentage''"
definition FIXED_AMOUNT :: string where "FIXED_AMOUNT = ''fixed_amount''"
definition FIXED_PRICE :: string where "FIXED_PRICE = ''fixed_price''"
definition FIXED_PRICE_PER_ITEM :: string where "FIXED_PRICE_PER_ITEM = ''fixed_price_per_item''"

lemmas BundleType_defs = FIXED_def MIX_MATCH_def VOLUME_def TIERED_def
lemmas DiscountType_defs = PERCENTAGE_def FIXED_AMOUNT_def FIXED_PRICE_def FIXED_PRICE_PER_ITEM_def

subsection \<open>Data model\<close>

record SelectedItem =
  si_productId :: string
  si_variantId :: string
  si_quantity :: number
  si_price :: number

record ItemPrice =
  ip_productId :: string
  ip_variantId :: string
  ip_originalPrice :: number
  ip_discountedPrice :: number
  ip_quantity :: number

record AppliedDiscount =
  ad_type :: "string option"
  ad_value :: number
  ad_label :: template

record DiscountResult =
  dr_discountedPrice :: number
  dr_appliedDiscount :: AppliedDiscount

record BundleItem =
  bi_shopifyProductId :: string
  bi_shopifyVariantId :: "string option"
  bi_productTitle :: string
  bi_quantity :: number
  bi_isRequired :: bool

record BundleCategory =
  bc_name :: string
  bc_minSelect :: number
  bc_maxSelect :: "number option"
  bc_items :: "BundleItem list"

record BundleTier =
  bt_id :: string
  bt_name :: string
  bt_price :: number
  bt_productCount :: number
  bt_allowedProducts :: "string option"

record VolumeRule =
  vr_minQuantity :: number
  vr_maxQuantity :: "number option"
  vr_discountType :: string
  vr_discountValue :: number
  vr_label :: "string option"

record Bundle =
  b_type :: string
  b_price :: "number option"
  b_discountType :: "string option"
  b_discountValue :: "number option"
  b_minProducts :: "number option"
  b_maxProducts :: "number option"
  b_allowDuplicates :: bool
  b_applyToSameProduct :: bool
  b_items :: "BundleItem list"
  b_volumeRules :: "VolumeRule list"
  b_tiers :: "BundleTier list"
  b_categories :: "BundleCategory list"

record PricingCalculationResponse =
  originalPrice :: number
  discountedPrice :: number
  savingsAmount :: number
  savingsPercent :: number
  itemPrices :: "ItemPrice list"
  appliedDiscount :: "AppliedDiscount option"
  isValid :: bool
  validationErrors :: "template list"

subsection \<open>\<^verbatim>\<open>applyDiscount\<close>\<close>

text \<open>
  The \<^verbatim>\<open>switch\<close> compares with \<^verbatim>\<open>===\<close>; \<^verbatim>\<open>null\<close> and every
  string that is no enum value reach \<^verbatim>\<open>default\<close>.
\<close>

definition applyDiscount :: "number \<Rightarrow> string option \<Rightarrow> number \<Rightarrow> DiscountResult" where
  "applyDiscount origPrice discountType discountValue =
    (let (discounted, label) =
       (if discountType = Some PERCENTAGE then
          (origPrice * (1 - discountValue / 100), [Num discountValue, Lit ''% off''])
        else if discountType = Some FIXED_AMOUNT then
          (max 0 (origPrice - discountValue),
           [Lit euro, ToFixed 2 (Finite discountValue), Lit '' off''])
        else if discountType = Some FIXED_PRICE then
          (discountValue, [Lit euro, ToFixed 2 (Finite discountValue)])
        else if discountType = Some FIXED_PRICE_PER_ITEM then
          (origPrice, [Lit euro, ToFixed 2 (Finite discountValue), Lit '' per item''])
        else (origPrice, []))
     in \<lparr>dr_discountedPrice = discounted,
         dr_appliedDiscount =
           \<lparr>ad_type = discountType, ad_value = discountValue, ad_label = label\<rparr>\<rparr>)"

subsection \<open>\<^verbatim>\<open>findApplicableVolumeRule\<close>\<close>

text \<open>
  \<^verbatim>\<open>[...rules].sort((a, b) => b.minQuantity - a.minQuantity)\<close> is a stable sort by
  descending \<^verbatim>\<open>minQuantity\<close>: the stable insertion sort on the negated key. The loop
  returns the first rule of the sorted list that passes both tests.
\<close>

definition ruleApplies :: "number \<Rightarrow> VolumeRule \<Rightarrow> bool" where
  "ruleApplies quantity rule =
    (quantity \<ge> vr_minQuantity rule \<and>
     (case vr_maxQuantity rule of None \<Rightarrow> True | Some m \<Rightarrow> quantity \<le> m))"

definition sortedRules :: "VolumeRule list \<Rightarrow> VolumeRule list" where
  "sortedRules rules = sort_key (\<lambda>r. - vr_minQuantity r) rules"

definition findApplicableVolumeRule :: "VolumeRule list \<Rightarrow> number \<Rightarrow> VolumeRule option" where
  "findApplicableVolumeRule rules quantity = List.find (ruleApplies quantity) (sortedRules rules)"

subsection \<open>\<^verbatim>\<open>calculateBundlePricing\<close>\<close>

text \<open>The \<^verbatim>\<open>reduce((sum, i) => sum + i.quantity, 0)\<close> of the source.\<close>

definition totalSelected :: "SelectedItem list \<Rightarrow> number" where
  "totalSelected selectedItems = fold (\<lambda>i sum. sum + si_quantity i) selectedItems 0"

text \<open>The first loop: the running sum of \<^verbatim>\<open>price * quantity\<close> and the entries pushed.\<close>

definition sumItemTotals :: "SelectedItem list \<Rightarrow> number" where
  "sumItemTotals selectedItems = fold (\<lambda>item acc. acc + si_price item * si_quantity item) selectedItems 0"

definition initialItemPrice :: "SelectedItem \<Rightarrow> ItemPrice" where
  "initialItemPrice item =
    \<lparr>ip_productId = si_productId item, ip_variantId = si_variantId item,
     ip_originalPrice = si_price item, ip_discountedPrice = si_price item,
     ip_quantity = si_quantity item\<rparr>"

text \<open>
  The variables the \<^verbatim>\<open>switch\<close> assigns: \<^verbatim>\<open>discountedPrice\<close>,
  \<^verbatim>\<open>appliedDiscount\<close>, \<^verbatim>\<open>isValid\<close> and \<^verbatim>\<open>errors\<close>.
\<close>

record PricingVars =
  pv_discountedPrice :: number
  pv_appliedDiscount :: "AppliedDiscount option"
  pv_isValid :: bool
  pv_errors :: "template list"

definition initialVars :: "number \<Rightarrow> PricingVars" where
  "initialVars origPrice =
    \<lparr>pv_discountedPrice = origPrice, pv_appliedDiscount = None,
     pv_isValid = True, pv_errors = []\<rparr>"

text \<open>\<^verbatim>\<open>bundle.discountType && bundle.discountValue !== null\<close>, then the assignment.\<close>

definition applyConfiguredDiscount :: "Bundle \<Rightarrow> number \<Rightarrow> PricingVars \<Rightarrow> PricingVars" where
  "applyConfiguredDiscount bundle origPrice vars =
    (case (b_discountType bundle, b_discountValue bundle) of
       (Some t, Some v) \<Rightarrow>
         (if t \<noteq> [] then
            (let result = applyDiscount origPrice (Some t) v
             in vars\<lparr>pv_discountedPrice := dr_discountedPrice result,
                     pv_appliedDiscount := Some (dr_appliedDiscount result)\<rparr>)
          else vars)
     | _ \<Rightarrow> vars)"

text \<open>\<^verbatim>\<open>case BundleType.FIXED\<close>\<close>

definition caseFixed :: "Bundle \<Rightarrow> number \<Rightarrow> number \<Rightarrow> PricingVars \<Rightarrow> PricingVars" where
  "caseFixed bundle quantity origPrice vars =
    (case b_price bundle of
       Some p \<Rightarrow>
         vars\<lparr>pv_discountedPrice := p * quantity,
              pv_appliedDiscount :=
                Some \<lparr>ad_type = Some FIXED_PRICE, ad_value = p,
                      ad_label = [Lit ''Bundle price: '', Lit euro, ToFixed 2 (Finite p)]\<rparr>\<rparr>
     | None \<Rightarrow> applyConfiguredDiscount bundle origPrice vars)"

text \<open>\<^verbatim>\<open>case BundleType.MIX_MATCH\<close>\<close>

definition belowMin :: "number option \<Rightarrow> number \<Rightarrow> bool" where
  "belowMin minProducts totalProducts =
    (case minProducts of None \<Rightarrow> False | Some m \<Rightarrow> m \<noteq> 0 \<and> totalProducts < m)"

definition aboveMax :: "number option \<Rightarrow> number \<Rightarrow> bool" where
  "aboveMax maxProducts totalProducts =
    (case maxProducts of None \<Rightarrow> False | Some m \<Rightarrow> m \<noteq> 0 \<and> totalProducts > m)"

definition minError :: "number option \<Rightarrow> template" where
  "minError minProducts =
    (case minProducts of None \<Rightarrow> [] | Some m \<Rightarrow> [Lit ''Minimum '', Num m, Lit '' products required''])"

definition maxError :: "number option \<Rightarrow> template" where
  "maxError maxProducts =
    (case maxProducts of None \<Rightarrow> [] | Some m \<Rightarrow> [Lit ''Maximum '', Num m, Lit '' products allowed''])"

definition caseMixMatch :: "Bundle \<Rightarrow> SelectedItem list \<Rightarrow> number \<Rightarrow> PricingVars \<Rightarrow> PricingVars" where
  "caseMixMatch bundle selectedItems origPrice vars =
    (let vars1 = applyConfiguredDiscount bundle origPrice vars;
         totalProducts = totalSelected selectedItems;
         vars2 =
           (if belowMin (b_minProducts bundle) totalProducts then
              vars1\<lparr>pv_isValid := False,
                    pv_errors := pv_errors vars1 @ [minError (b_minProducts bundle)]\<rparr>
            else vars1)
     in if aboveMax (b_maxProducts bundle) totalProducts then
          vars2\<lparr>pv_isValid := False,
                pv_errors := pv_errors vars2 @ [maxError (b_maxProducts bundle)]\<rparr>
        else vars2)"

text \<open>
  \<^verbatim>\<open>case BundleType.VOLUME\<close>; the label is
  \<^verbatim>\<open>applicableRule.label || result.appliedDiscount!.label\<close>.
\<close>

definition ruleLabel :: "VolumeRule \<Rightarrow> template \<Rightarrow> template" where
  "ruleLabel rule generated =
    (case vr_label rule of
       None \<Rightarrow> generated
     | Some l \<Rightarrow> if l \<noteq> [] then [Lit l] else generated)"

definition caseVolume :: "Bundle \<Rightarrow> SelectedItem list \<Rightarrow> number \<Rightarrow> number \<Rightarrow> PricingVars \<Rightarrow> PricingVars" where
  "caseVolume bundle selectedItems quantity origPrice vars =
    (let totalQuantity = totalSelected selectedItems * quantity
     in case findApplicableVolumeRule (b_volumeRules bundle) totalQuantity of
          Some applicableRule \<Rightarrow>
            (let result = applyDiscount origPrice (Some (vr_discountType applicableRule))
                            (vr_discountValue applicableRule)
             in vars\<lparr>pv_discountedPrice := dr_discountedPrice result,
                     pv_appliedDiscount :=
                       Some ((dr_appliedDiscount result)
                              \<lparr>ad_label := ruleLabel applicableRule
                                             (ad_label (dr_appliedDiscount result))\<rparr>)\<rparr>)
        | None \<Rightarrow> vars)"

text \<open>\<^verbatim>\<open>case BundleType.TIERED\<close>; \<^verbatim>\<open>if (tierId)\<close> fails for an absent and for an empty id.\<close>

definition tierGiven :: "string option \<Rightarrow> bool" where
  "tierGiven tierId = (case tierId of None \<Rightarrow> False | Some t \<Rightarrow> t \<noteq> [])"

definition findTier :: "BundleTier list \<Rightarrow> string option \<Rightarrow> BundleTier option" where
  "findTier tiers tierId = List.find (\<lambda>t. Some (bt_id t) = tierId) tiers"

definition caseTiered :: "Bundle \<Rightarrow> SelectedItem list \<Rightarrow> string option \<Rightarrow> number \<Rightarrow> PricingVars \<Rightarrow> PricingVars" where
  "caseTiered bundle selectedItems tierId quantity vars =
    (if tierGiven tierId then
       (case findTier (b_tiers bundle) tierId of
          Some selectedTier \<Rightarrow>
            (let vars1 =
                   vars\<lparr>pv_discountedPrice := bt_price selectedTier * quantity,
                        pv_appliedDiscount :=
                          Some \<lparr>ad_type = Some FIXED_PRICE, ad_value = bt_price selectedTier,
                                ad_label = [Lit (bt_name selectedTier), Lit '': '', Lit euro,
                                            ToFixed 2 (Finite (bt_price selectedTier))]\<rparr>\<rparr>;
                 tierProductCount = totalSelected selectedItems
             in if tierProductCount \<noteq> bt_productCount selectedTier then
                  vars1\<lparr>pv_isValid := False,
                        pv_errors := pv_errors vars1 @
                          [[Lit (bt_name selectedTier), Lit '' requires exactly '',
                            Num (bt_productCount selectedTier), Lit '' products'']]\<rparr>
                else vars1)
        | None \<Rightarrow>
            vars\<lparr>pv_isValid := False,
                 pv_errors := pv_errors vars @ [[Lit ''Invalid tier selected'']]\<rparr>)
     else
       vars\<lparr>pv_isValid := False,
            pv_errors := pv_errors vars @ [[Lit ''Please select a tier'']]\<rparr>)"

text \<open>The \<^verbatim>\<open>switch (bundle.type)\<close>: no \<^verbatim>\<open>default\<close> branch.\<close>

definition switchType :: "Bundle \<Rightarrow> SelectedItem list \<Rightarrow> string option \<Rightarrow> number \<Rightarrow> number \<Rightarrow> PricingVars" where
  "switchType bundle selectedItems tierId quantity origPrice =
    (if b_type bundle = FIXED then caseFixed bundle quantity origPrice (initialVars origPrice)
     else if b_type bundle = MIX_MATCH then
       caseMixMatch bundle selectedItems origPrice (initialVars origPrice)
     else if b_type bundle = VOLUME then
       caseVolume bundle selectedItems quantity origPrice (initialVars origPrice)
     else if b_type bundle = TIERED then
       caseTiered bundle selectedItems tierId quantity (initialVars origPrice)
     else initialVars origPrice)"

text \<open>The update of the per-item entries by the discount ratio.\<close>

definition updateItemPrices :: "PricingVars \<Rightarrow> number \<Rightarrow> ItemPrice list \<Rightarrow> ItemPrice list" where
  "updateItemPrices vars origPrice prices =
    (if pv_appliedDiscount vars \<noteq> None \<and> origPrice > 0 then
       (let discountRatio = pv_discountedPrice vars / origPrice
        in map (\<lambda>itemPrice. itemPrice\<lparr>ip_discountedPrice := ip_originalPrice itemPrice * discountRatio\<rparr>)
             prices)
     else prices)"

text \<open>
  The function itself. The default \<^verbatim>\<open>quantity = 1\<close> of the signature is the caller's
  argument \<open>1\<close> here.
\<close>

definition calculateBundlePricing ::
    "Bundle \<Rightarrow> SelectedItem list \<Rightarrow> string option \<Rightarrow> number \<Rightarrow> PricingCalculationResponse" where
  "calculateBundlePricing bundle selectedItems tierId quantity =
    (let origPrice = sumItemTotals selectedItems * quantity;
         vars = switchType bundle selectedItems tierId quantity origPrice;
         savings = origPrice - pv_discountedPrice vars
     in \<lparr>originalPrice = origPrice,
         discountedPrice = pv_discountedPrice vars,
         savingsAmount = savings,
         savingsPercent = (if origPrice > 0 then (savings / origPrice) * 100 else 0),
         itemPrices = updateItemPrices vars origPrice (map initialItemPrice selectedItems),
         appliedDiscount = pv_appliedDiscount vars,
         isValid = pv_isValid vars,
         validationErrors = pv_errors vars\<rparr>)"

subsection \<open>\<^verbatim>\<open>formatPrice\<close> and \<^verbatim>\<open>formatSavings\<close> (\<^verbatim>\<open>app/utils/bundle.ts\<close>)\<close>

text \<open>
  The division and the multiplication of JavaScript where the divisor is not tested:
  \<^verbatim>\<open>0 / 0\<close> is \<^verbatim>\<open>NaN\<close>, \<^verbatim>\<open>x / 0\<close> is an infinity with the sign of
  \<open>x\<close> (the negative zero is outside the model).
\<close>

definition js_div :: "number \<Rightarrow> number \<Rightarrow> jsnum" where
  "js_div a b =
    (if b \<noteq> 0 then Finite (a / b)
     else if a = 0 then NaN
     else if a > 0 then PosInfinity
     else NegInfinity)"

fun js_times :: "jsnum \<Rightarrow> number \<Rightarrow> jsnum" where
  "js_times (Finite x) c = Finite (x * c)"
| "js_times PosInfinity c = (if c > 0 then PosInfinity else if c < 0 then NegInfinity else NaN)"
| "js_times NegInfinity c = (if c > 0 then NegInfinity else if c < 0 then PosInfinity else NaN)"
| "js_times NaN c = NaN"

definition formatPrice :: "number \<Rightarrow> string \<Rightarrow> template" where
  "formatPrice amount currency = [FormatPrice amount currency]"

text \<open>The local \<^verbatim>\<open>percent\<close> of \<^verbatim>\<open>formatSavings\<close>.\<close>

definition savingsPercentOf :: "number \<Rightarrow> number \<Rightarrow> jsnum" where
  "savingsPercentOf origPrice discPrice =
    (let savings = origPrice - discPrice
     in js_times (js_div savings origPrice) 100)"

definition formatSavings :: "number \<Rightarrow> number \<Rightarrow> bool \<Rightarrow> template" where
  "formatSavings origPrice discPrice showPercent =
    (let savings = origPrice - discPrice;
         percent = savingsPercentOf origPrice discPrice
     in if showPercent then [Lit ''Save '', ToFixed 0 percent, Lit ''%'']
        else Lit ''Save '' # formatPrice savings ''EUR'')"

subsection \<open>\<^verbatim>\<open>validateBundle\<close>\<close>

text \<open>
  The argument is a \<^verbatim>\<open>Partial<Bundle>\<close>: a field can be missing
  (\<^verbatim>\<open>undefined\<close>), \<^verbatim>\<open>null\<close> or a value, and the source tells them apart
  (\<^verbatim>\<open>=== null\<close> is false for a missing field, \<^verbatim>\<open>!x\<close> is true for both).
\<close>

datatype 'a field = Undefined | Null | Val 'a

text \<open>
  A date field holds a \<^verbatim>\<open>Date\<close> object or a string; \<^verbatim>\<open>new Date(x)\<close> has a time
  value or is invalid (its comparisons are then false). The parser of date strings is a
  parameter.
\<close>

datatype jsdate = TimeValue int | InvalidDate

datatype datearg = DateObject jsdate | DateString string

record ValidationError =
  ve_field :: string
  ve_message :: template
  ve_code :: string

record ValidationResult =
  res_isValid :: bool
  res_errors :: "ValidationError list"

record PartialBundle =
  pb_title :: "string field"
  pb_type :: "string field"
  pb_price :: "number field"
  pb_discountType :: "string field"
  pb_minProducts :: "number field"
  pb_maxProducts :: "number field"
  pb_startDate :: "datearg field"
  pb_endDate :: "datearg field"
  pb_items :: "BundleItem list field"
  pb_volumeRules :: "VolumeRule list field"
  pb_tiers :: "BundleTier list field"

text \<open>\<^verbatim>\<open>String.prototype.trim\<close> on the ASCII white space (tab to carriage return, space).\<close>

definition isWhiteSpace :: "char \<Rightarrow> bool" where
  "isWhiteSpace c = (c \<in> set [CHR 0x09, CHR 0x0A, CHR 0x0B, CHR 0x0C, CHR 0x0D, CHR '' ''])"

definition js_trim :: "string \<Rightarrow> string" where
  "js_trim s = rev (dropWhile isWhiteSpace (rev (dropWhile isWhiteSpace s)))"

definition falsyString :: "string field \<Rightarrow> bool" where
  "falsyString f = (case f of Val s \<Rightarrow> s = [] | _ \<Rightarrow> True)"

definition noEntries :: "'a list field \<Rightarrow> bool" where
  "noEntries f = (case f of Val xs \<Rightarrow> xs = [] | _ \<Rightarrow> True)"

definition truthyDate :: "datearg field \<Rightarrow> bool" where
  "truthyDate f =
    (case f of Val (DateObject d) \<Rightarrow> True | Val (DateString s) \<Rightarrow> s \<noteq> [] | _ \<Rightarrow> False)"

definition newDate :: "(string \<Rightarrow> jsdate) \<Rightarrow> datearg field \<Rightarrow> jsdate" where
  "newDate parseDate f =
    (case f of Val (DateObject d) \<Rightarrow> d | Val (DateString s) \<Rightarrow> parseDate s | _ \<Rightarrow> InvalidDate)"

definition dateGreaterEq :: "jsdate \<Rightarrow> jsdate \<Rightarrow> bool" where
  "dateGreaterEq a b = (case (a, b) of (TimeValue x, TimeValue y) \<Rightarrow> x \<ge> y | _ \<Rightarrow> False)"

definition mkError :: "string \<Rightarrow> string \<Rightarrow> string \<Rightarrow> ValidationError" where
  "mkError f m c = \<lparr>ve_field = f, ve_message = [Lit m], ve_code = c\<rparr>"

text \<open>The four blocks of the function, each giving the errors it pushes, in order.\<close>

definition basicErrors :: "PartialBundle \<Rightarrow> ValidationError list" where
  "basicErrors bundle =
    (if falsyString (pb_title bundle) \<or> (case pb_title bundle of Val s \<Rightarrow> js_trim s = [] | _ \<Rightarrow> False)
     then [mkError ''title'' ''Title is required'' ''REQUIRED''] else [])
    @ (if falsyString (pb_type bundle)
       then [mkError ''type'' ''Bundle type is required'' ''REQUIRED''] else [])"

definition typeErrors :: "PartialBundle \<Rightarrow> ValidationError list" where
  "typeErrors bundle =
    (if pb_type bundle = Val FIXED then
       (if noEntries (pb_items bundle)
        then [mkError ''items'' ''Fixed bundles must have at least one item'' ''MIN_ITEMS''] else [])
       @ (if pb_price bundle = Null \<and> pb_discountType bundle = Null
          then [mkError ''price'' ''Fixed bundles must have a price or discount'' ''REQUIRED'']
          else [])
     else if pb_type bundle = Val MIX_MATCH then
       (if noEntries (pb_items bundle)
        then [mkError ''items'' ''Mix & Match bundles must have available items'' ''MIN_ITEMS'']
        else [])
       @ (case (pb_minProducts bundle, pb_maxProducts bundle) of
            (Val lo, Val hi) \<Rightarrow>
              (if lo \<noteq> 0 \<and> hi \<noteq> 0 \<and> lo > hi
               then [mkError ''minProducts'' ''Minimum products cannot exceed maximum'' ''INVALID_RANGE'']
               else [])
          | _ \<Rightarrow> [])
     else if pb_type bundle = Val VOLUME then
       (if noEntries (pb_volumeRules bundle)
        then [mkError ''volumeRules'' ''Volume bundles must have at least one discount rule'' ''MIN_RULES'']
        else [])
     else if pb_type bundle = Val TIERED then
       (if noEntries (pb_tiers bundle)
        then [mkError ''tiers'' ''Tiered bundles must have at least one tier'' ''MIN_TIERS'']
        else [])
     else [])"

definition scheduleErrors :: "(string \<Rightarrow> jsdate) \<Rightarrow> PartialBundle \<Rightarrow> ValidationError list" where
  "scheduleErrors parseDate bundle =
    (if truthyDate (pb_startDate bundle) \<and> truthyDate (pb_endDate bundle)
        \<and> dateGreaterEq (newDate parseDate (pb_startDate bundle)) (newDate parseDate (pb_endDate bundle))
     then [mkError ''endDate'' ''End date must be after start date'' ''INVALID_DATE_RANGE'']
     else [])"

definition validateBundle :: "(string \<Rightarrow> jsdate) \<Rightarrow> PartialBundle \<Rightarrow> ValidationResult" where
  "validateBundle parseDate bundle =
    (let errors = basicErrors bundle @ typeErrors bundle @ scheduleErrors parseDate bundle
     in \<lparr>res_isValid = (length errors = 0), res_errors = errors\<rparr>)"

subsection \<open>The storefront validate route (\<^verbatim>\<open>api.storefront.bundle.validate.tsx\<close>)\<close>

text \<open>
  The handler from the point where the bundle is loaded and its schedule is active: the
  \<^verbatim>\<open>switch\<close> on the bundle type, the inventory check, the pricing and the response.
  The inventory query is a parameter: it throws (the \<^verbatim>\<open>catch\<close> then answers 500) or
  returns the JSON, whose \<^verbatim>\<open>data?.nodes\<close> is missing or a list of nodes, some
  \<^verbatim>\<open>null\<close>.
\<close>

record InventoryNode =
  in_id :: string
  in_availableForSale :: bool
  in_quantityAvailable :: "number option"
  in_productTitle :: string

datatype InventoryReply = GraphqlThrows | GraphqlJson "InventoryNode option list option"

record StorefrontValidateResponse =
  sv_status :: nat
  sv_isValid :: bool
  sv_errors :: "template list"
  sv_warnings :: "template list option"
  sv_pricing :: "PricingCalculationResponse option"

text \<open>\<^verbatim>\<open>Math.min(...xs)\<close> of a list that is not empty.\<close>

definition mathMin :: "number \<Rightarrow> number list \<Rightarrow> number" where
  "mathMin x xs = fold min xs x"

definition sfCategoryErrors :: "SelectedItem list \<Rightarrow> BundleCategory \<Rightarrow> template list" where
  "sfCategoryErrors selectedItems category =
    (let categoryItemIds = map bi_shopifyVariantId (bc_items category);
         selectedFromCategory = filter (\<lambda>s. Some (si_variantId s) \<in> set categoryItemIds) selectedItems;
         categoryTotal = totalSelected selectedFromCategory
     in (if bc_minSelect category \<noteq> 0 \<and> categoryTotal < bc_minSelect category
         then [[Lit (bc_name category), Lit '': select at least '', Num (bc_minSelect category),
                Lit '' items'']]
         else [])
        @ (case bc_maxSelect category of
             None \<Rightarrow> []
           | Some m \<Rightarrow>
               if m \<noteq> 0 \<and> categoryTotal > m
               then [[Lit (bc_name category), Lit '': maximum '', Num m, Lit '' items'']]
               else []))"

text \<open>The loop over the selection with the set \<^verbatim>\<open>seen\<close>: true when it breaks.\<close>

fun seenTwice :: "string list \<Rightarrow> SelectedItem list \<Rightarrow> bool" where
  "seenTwice seen [] = False"
| "seenTwice seen (item # rest) =
    (if si_variantId item \<in> set seen then True else seenTwice (si_variantId item # seen) rest)"

definition sfMinError :: "number option \<Rightarrow> template" where
  "sfMinError minProducts =
    (case minProducts of None \<Rightarrow> [] | Some m \<Rightarrow> [Lit ''Select at least '', Num m, Lit '' products''])"

definition sfMixMatch :: "Bundle \<Rightarrow> SelectedItem list \<Rightarrow> template list" where
  "sfMixMatch bundle selectedItems =
    (let totalProducts = totalSelected selectedItems
     in (if belowMin (b_minProducts bundle) totalProducts
         then [sfMinError (b_minProducts bundle)] else [])
        @ (if aboveMax (b_maxProducts bundle) totalProducts
           then [maxError (b_maxProducts bundle)] else [])
        @ concat (map (sfCategoryErrors selectedItems) (b_categories bundle))
        @ (if b_allowDuplicates bundle then []
           else if seenTwice [] selectedItems
           then [[Lit ''Duplicate products are not allowed in this bundle'']] else []))"

definition sfTiered :: "Bundle \<Rightarrow> SelectedItem list \<Rightarrow> string option \<Rightarrow> template list" where
  "sfTiered bundle selectedItems tierId =
    (if tierGiven tierId then
       (case findTier (b_tiers bundle) tierId of
          None \<Rightarrow> [[Lit ''Invalid tier selected'']]
        | Some selectedTier \<Rightarrow>
            (let tierProductCount = totalSelected selectedItems
             in if tierProductCount < bt_productCount selectedTier then
                  [[Lit ''Select '', Num (bt_productCount selectedTier - tierProductCount),
                    Lit '' more products for '', Lit (bt_name selectedTier)]]
                else if tierProductCount > bt_productCount selectedTier then
                  [[Lit (bt_name selectedTier), Lit '' allows only '',
                    Num (bt_productCount selectedTier), Lit '' products'']]
                else []))
     else [[Lit ''Please select a tier'']])"

text \<open>\<^verbatim>\<open>case BundleType.VOLUME\<close> of this route: the errors and the warnings it pushes.\<close>

definition sfVolume :: "Bundle \<Rightarrow> SelectedItem list \<Rightarrow> number \<Rightarrow> template list \<times> template list" where
  "sfVolume bundle selectedItems quantity =
    (if selectedItems = [] then ([[Lit ''Please select items'']], [])
     else
       (let totalQty = totalSelected selectedItems * quantity
        in case List.find (ruleApplies totalQty) (b_volumeRules bundle) of
             Some qualifyingRule \<Rightarrow> ([], [])
           | None \<Rightarrow>
               (case map vr_minQuantity (b_volumeRules bundle) of
                  [] \<Rightarrow> ([], [])
                | m # ms \<Rightarrow>
                    ([], [[Lit ''Add '', Num (mathMin m ms - totalQty),
                           Lit '' more to qualify for a discount'']]))))"

definition sfSwitch ::
    "Bundle \<Rightarrow> SelectedItem list \<Rightarrow> string option \<Rightarrow> number \<Rightarrow> template list \<times> template list" where
  "sfSwitch bundle selectedItems tierId quantity =
    (if b_type bundle = FIXED then ([], [])
     else if b_type bundle = MIX_MATCH then (sfMixMatch bundle selectedItems, [])
     else if b_type bundle = TIERED then (sfTiered bundle selectedItems tierId, [])
     else if b_type bundle = VOLUME then sfVolume bundle selectedItems quantity
     else ([], []))"

definition startsWith :: "string \<Rightarrow> string \<Rightarrow> bool" where
  "startsWith p s = (take (length p) s = p)"

definition variantGid :: "string \<Rightarrow> string" where
  "variantGid v = ''gid://shopify/ProductVariant/'' @ v"

definition variantIdsOf :: "SelectedItem list \<Rightarrow> string list" where
  "variantIdsOf selectedItems =
    map (\<lambda>item. if startsWith ''gid://'' (si_variantId item) then si_variantId item
                 else variantGid (si_variantId item))
        (filter (\<lambda>item. si_variantId item \<noteq> []) selectedItems)"

definition nodeErrors :: "SelectedItem list \<Rightarrow> number \<Rightarrow> InventoryNode option \<Rightarrow> template list" where
  "nodeErrors selectedItems quantity n =
    (case n of
       None \<Rightarrow> []
     | Some node \<Rightarrow>
         (case List.find (\<lambda>item. si_variantId item = in_id node
                                  \<or> variantGid (si_variantId item) = in_id node) selectedItems of
            None \<Rightarrow> []
          | Some selectedItem \<Rightarrow>
              (let requiredQty = si_quantity selectedItem * quantity;
                   available = (case in_quantityAvailable node of None \<Rightarrow> 0 | Some a \<Rightarrow> a)
               in if in_availableForSale node then
                    (if available < requiredQty
                     then [[Lit ''Only '', Num available, Lit '' of '', Lit (in_productTitle node),
                            Lit '' available'']]
                     else [])
                  else [[Lit (in_productTitle node), Lit '' is not available'']])))"

text \<open>The inventory block: \<open>None\<close> when the query throws.\<close>

definition inventoryErrors ::
    "(string list \<Rightarrow> InventoryReply) \<Rightarrow> SelectedItem list \<Rightarrow> number \<Rightarrow> template list option" where
  "inventoryErrors graphql selectedItems quantity =
    (if selectedItems = [] then Some []
     else if variantIdsOf selectedItems = [] then Some []
     else
       (case graphql (variantIdsOf selectedItems) of
          GraphqlThrows \<Rightarrow> None
        | GraphqlJson None \<Rightarrow> Some []
        | GraphqlJson (Some nodes) \<Rightarrow>
            Some (concat (map (nodeErrors selectedItems quantity) nodes))))"

definition storefrontValidate ::
    "(string list \<Rightarrow> InventoryReply) \<Rightarrow> Bundle \<Rightarrow> SelectedItem list \<Rightarrow> string option \<Rightarrow> number
      \<Rightarrow> StorefrontValidateResponse" where
  "storefrontValidate graphql bundle selectedItems tierId quantity =
    (let (typeErrors, warnings) = sfSwitch bundle selectedItems tierId quantity
     in case inventoryErrors graphql selectedItems quantity of
          None \<Rightarrow>
            \<lparr>sv_status = 500, sv_isValid = False, sv_errors = [[Lit ''Validation failed'']],
             sv_warnings = None, sv_pricing = None\<rparr>
        | Some stockErrors \<Rightarrow>
            (let errors = typeErrors @ stockErrors
             in \<lparr>sv_status = 200, sv_isValid = (length errors = 0), sv_errors = errors,
                 sv_warnings = Some warnings,
                 sv_pricing =
                   (if length errors = 0
                    then Some (calculateBundlePricing bundle selectedItems tierId quantity)
                    else None)\<rparr>))"

subsection \<open>The admin pricing-validate route (\<^verbatim>\<open>api.pricing.validate.tsx\<close>), volume bundles\<close>

text \<open>
  \<^verbatim>\<open>case BundleType.VOLUME\<close> of that route and the common validations after the
  \<^verbatim>\<open>switch\<close>; \<^verbatim>\<open>new Set(...).size\<close> is the number of distinct product ids.
\<close>

record PricingValidateResponse =
  pvr_isValid :: bool
  pvr_errors :: "ValidationError list"
  pvr_warnings :: "template list"

definition pvVolumeRules :: "Bundle \<Rightarrow> SelectedItem list \<Rightarrow> number \<Rightarrow> ValidationError list \<times> template list" where
  "pvVolumeRules bundle selectedItems quantity =
    (case map vr_minQuantity (b_volumeRules bundle) of
       [] \<Rightarrow> ([mkError ''volumeRules'' ''No volume discount rules configured'' ''NO_RULES''], [])
     | m # ms \<Rightarrow>
         (let totalQty = totalSelected selectedItems * quantity
          in case List.find (ruleApplies totalQty) (b_volumeRules bundle) of
               Some qualifyingRule \<Rightarrow> ([], [])
             | None \<Rightarrow>
                 ([], [[Lit ''Current quantity ('', Num totalQty,
                        Lit '') does not qualify for any discount. Minimum '',
                        Num (mathMin m ms), Lit '' required.'']])))"

definition pvSameProduct :: "Bundle \<Rightarrow> SelectedItem list \<Rightarrow> ValidationError list" where
  "pvSameProduct bundle selectedItems =
    (if b_applyToSameProduct bundle \<and> length (remdups (map si_productId selectedItems)) > 1
     then [mkError ''selectedItems'' ''Volume discount applies only to the same product''
             ''SAME_PRODUCT_REQUIRED'']
     else [])"

definition pvCommon :: "SelectedItem list \<Rightarrow> number \<Rightarrow> ValidationError list" where
  "pvCommon selectedItems quantity =
    (if quantity < 1 then [mkError ''quantity'' ''Quantity must be at least 1'' ''MIN_QUANTITY'']
     else [])
    @ map (\<lambda>item. \<lparr>ve_field = ''selectedItems'',
                    ve_message = [Lit ''Invalid price for item: '', Lit (si_productId item)],
                    ve_code = ''INVALID_PRICE''\<rparr>)
        (filter (\<lambda>item. si_price item < 0) selectedItems)"

definition pricingValidateVolume :: "Bundle \<Rightarrow> SelectedItem list \<Rightarrow> number \<Rightarrow> PricingValidateResponse" where
  "pricingValidateVolume bundle selectedItems quantity =
    (let (ruleErrors, warnings) = pvVolumeRules bundle selectedItems quantity;
         errors = ruleErrors @ pvSameProduct bundle selectedItems @ pvCommon selectedItems quantity
     in \<lparr>pvr_isValid = (length errors = 0), pvr_errors = errors, pvr_warnings = warnings\<rparr>)"

subsection \<open>Concrete inputs\<close>

text \<open>The inputs at which the theorems below are instantiated.\<close>

definition selected :: "string \<Rightarrow> string \<Rightarrow> number \<Rightarrow> number \<Rightarrow> SelectedItem" where
  "selected pid vid qty amount =
    \<lparr>si_productId = pid, si_variantId = vid, si_quantity = qty, si_price = amount\<rparr>"

definition bundleOfType :: "string \<Rightarrow> Bundle" where
  "bundleOfType ty =
    \<lparr>b_type = ty, b_price = None, b_discountType = None, b_discountValue = None,
     b_minProducts = None, b_maxProducts = None, b_allowDuplicates = True,
     b_applyToSameProduct = False, b_items = [], b_volumeRules = [], b_tiers = [],
     b_categories = []\<rparr>"

definition percentRule :: "number \<Rightarrow> number option \<Rightarrow> number \<Rightarrow> VolumeRule" where
  "percentRule lo hi pct =
    \<lparr>vr_minQuantity = lo, vr_maxQuantity = hi, vr_discountType = PERCENTAGE,
     vr_discountValue = pct, vr_label = None\<rparr>"

definition tierT1 :: BundleTier where
  "tierT1 =
    \<lparr>bt_id = ''t1'', bt_name = ''Trio'', bt_price = 65, bt_productCount = 3,
     bt_allowedProducts = None\<rparr>"

definition twoItems :: "SelectedItem list" where
  "twoItems = [selected ''shirt'' ''v1'' 1 30, selected ''mug'' ''v2'' 1 25]"

definition threeItems :: "SelectedItem list" where
  "threeItems = [selected ''shirt'' ''v1'' 2 30, selected ''mug'' ''v2'' 1 25]"

definition fixed50 :: Bundle where
  "fixed50 = (bundleOfType FIXED)\<lparr>b_price := Some 50\<rparr>"

definition tieredBundle :: Bundle where
  "tieredBundle = (bundleOfType TIERED)\<lparr>b_tiers := [tierT1]\<rparr>"

definition mixMatch3to5 :: Bundle where
  "mixMatch3to5 =
    (bundleOfType MIX_MATCH)\<lparr>b_discountType := Some PERCENTAGE, b_discountValue := Some 15,
       b_minProducts := Some 3, b_maxProducts := Some 5\<rparr>"

definition mixMatchMax0 :: Bundle where
  "mixMatchMax0 = (bundleOfType MIX_MATCH)\<lparr>b_maxProducts := Some 0\<rparr>"

definition volumeSameProduct :: Bundle where
  "volumeSameProduct =
    (bundleOfType VOLUME)\<lparr>b_applyToSameProduct := True, b_volumeRules := [percentRule 2 None 10]\<rparr>"

definition inStock :: "string list \<Rightarrow> InventoryReply" where
  "inStock ids =
    GraphqlJson (Some (map (\<lambda>i. Some \<lparr>in_id = i, in_availableForSale = True,
                                        in_quantityAvailable = Some 100,
                                        in_productTitle = ''Item''\<rparr>) ids))"

definition kitItem :: BundleItem where
  "kitItem =
    \<lparr>bi_shopifyProductId = ''p1'', bi_shopifyVariantId = Some ''v1'',
     bi_productTitle = ''Shirt'', bi_quantity = 1, bi_isRequired = True\<rparr>"

text \<open>
  What the create route passes for the body
  \<^verbatim>\<open>{title: "Starter kit", type: "FIXED", items: [...]}\<close>: the keys the body lacks are
  \<^verbatim>\<open>undefined\<close>, the three lists default to \<^verbatim>\<open>[]\<close>.
\<close>

definition createRequest :: PartialBundle where
  "createRequest =
    \<lparr>pb_title = Val ''Starter kit'', pb_type = Val FIXED, pb_price = Undefined,
     pb_discountType = Undefined, pb_minProducts = Undefined, pb_maxProducts = Undefined,
     pb_startDate = Undefined, pb_endDate = Undefined, pb_items = Val [kitItem],
     pb_volumeRules = Val [], pb_tiers = Val []\<rparr>"

lemmas pricing_defs = calculateBundlePricing_def switchType_def caseFixed_def caseMixMatch_def
  caseVolume_def caseTiered_def applyConfiguredDiscount_def initialVars_def updateItemPrices_def
  initialItemPrice_def sumItemTotals_def totalSelected_def belowMin_def aboveMax_def minError_def
  maxError_def ruleLabel_def tierGiven_def findTier_def findApplicableVolumeRule_def sortedRules_def
  ruleApplies_def applyDiscount_def

lemmas example_defs = selected_def bundleOfType_def percentRule_def tierT1_def twoItems_def
  threeItems_def fixed50_def tieredBundle_def mixMatch3to5_def mixMatchMax0_def
  volumeSameProduct_def inStock_def kitItem_def createRequest_def

lemmas validate_defs = validateBundle_def basicErrors_def typeErrors_def scheduleErrors_def
  falsyString_def noEntries_def truthyDate_def newDate_def dateGreaterEq_def mkError_def
  js_trim_def isWhiteSpace_def

lemmas storefront_defs = storefrontValidate_def sfSwitch_def sfVolume_def inventoryErrors_def
  variantIdsOf_def nodeErrors_def startsWith_def variantGid_def mathMin_def

section \<open>Properties\<close>

subsection \<open>The discount primitive\<close>

text \<open>
  C1. \<^verbatim>\<open>applyDiscount\<close>, for every amount and value: a percentage discount gives
  \<open>amount * (1 - value / 100)\<close>, so the value 0 leaves the amount and the value 100 gives 0;
  a fixed amount gives \<open>max 0 (amount - value)\<close>, never negative; a fixed price gives the
  value whatever the amount; a fixed price per item leaves the amount; and no discount type,
  or one that is no enum value, leaves the amount with the empty label.
\<close>

theorem applyDiscount_by_type:
  "dr_discountedPrice (applyDiscount a (Some PERCENTAGE) v) = a * (1 - v / 100)
   \<and> dr_discountedPrice (applyDiscount a (Some PERCENTAGE) 0) = a
   \<and> dr_discountedPrice (applyDiscount a (Some PERCENTAGE) 100) = 0
   \<and> dr_discountedPrice (applyDiscount a (Some FIXED_AMOUNT) v) = max 0 (a - v)
   \<and> 0 \<le> dr_discountedPrice (applyDiscount a (Some FIXED_AMOUNT) v)
   \<and> dr_discountedPrice (applyDiscount a (Some FIXED_PRICE) v) = v
   \<and> dr_discountedPrice (applyDiscount a (Some FIXED_PRICE_PER_ITEM) v) = a
   \<and> dr_discountedPrice (applyDiscount a None v) = a
   \<and> ad_label (dr_appliedDiscount (applyDiscount a None v)) = []
   \<and> (t \<notin> {PERCENTAGE, FIXED_AMOUNT, FIXED_PRICE, FIXED_PRICE_PER_ITEM} \<longrightarrow>
        dr_discountedPrice (applyDiscount a (Some t) v) = a
        \<and> ad_label (dr_appliedDiscount (applyDiscount a (Some t) v)) = [])"
  by (simp add: applyDiscount_def DiscountType_defs)

theorem applyDiscount_by_type_witness:
  "''coupon'' \<notin> {PERCENTAGE, FIXED_AMOUNT, FIXED_PRICE, FIXED_PRICE_PER_ITEM}
   \<and> dr_discountedPrice (applyDiscount 80 (Some PERCENTAGE) 25) = 60
   \<and> dr_discountedPrice (applyDiscount 10 (Some FIXED_AMOUNT) 30) = 0
   \<and> dr_discountedPrice (applyDiscount 80 (Some ''coupon'') 25) = 80
   \<and> ad_label (dr_appliedDiscount (applyDiscount 80 (Some ''coupon'') 25)) = []"
  using applyDiscount_by_type [of 80 25 "''coupon''"] applyDiscount_by_type [of 10 30 "''coupon''"]
  by (simp add: DiscountType_defs)

lemma applyDiscount_percentage:
  "dr_discountedPrice (applyDiscount a (Some PERCENTAGE) v) = a * (1 - v / 100)"
  by (simp add: applyDiscount_def)

subsection \<open>Fixed bundles\<close>

text \<open>
  C2. For a bundle of type Fixed, the original price is the sum of the selected
  \<open>price * quantity\<close> times the bundle quantity, and the discounted price is
  \<open>bundle.price * quantity\<close> when the bundle has a price, whatever the selection; without a
  price it is the discount primitive applied to the original price when a discount type and
  value are configured, and the original price otherwise.
\<close>

theorem fixed_bundle_price:
  assumes "b_type bundle = FIXED"
  shows "originalPrice (calculateBundlePricing bundle sel tierId q) = sumItemTotals sel * q
    \<and> discountedPrice (calculateBundlePricing bundle sel tierId q) =
       (case b_price bundle of
          Some p \<Rightarrow> p * q
        | None \<Rightarrow>
           (case (b_discountType bundle, b_discountValue bundle) of
              (Some t, Some v) \<Rightarrow>
                dr_discountedPrice
                  (applyDiscount (originalPrice (calculateBundlePricing bundle sel tierId q)) (Some t) v)
            | _ \<Rightarrow> originalPrice (calculateBundlePricing bundle sel tierId q)))"
  using assms
  by (simp add: calculateBundlePricing_def switchType_def caseFixed_def applyConfiguredDiscount_def
        initialVars_def applyDiscount_def DiscountType_defs Let_def split: option.splits)

theorem fixed_bundle_price_witness:
  "b_type fixed50 = FIXED
   \<and> originalPrice (calculateBundlePricing fixed50 twoItems None 1) = 55
   \<and> discountedPrice (calculateBundlePricing fixed50 twoItems None 1) = 50"
  using fixed_bundle_price [of fixed50 twoItems None 1]
  by (simp add: example_defs sumItemTotals_def)

subsection \<open>Volume rule selection\<close>

text \<open>
  In a list sorted by a key, the first element that satisfies a predicate has the least key
  among the elements that satisfy it.
\<close>

lemma find_sort_key_least:
  fixes f :: "'a \<Rightarrow> 'k::linorder"
  assumes "List.find P (sort_key f xs) = Some r"
  shows "r \<in> set xs \<and> P r \<and> (\<forall>y \<in> set xs. P y \<longrightarrow> f r \<le> f y)"
proof -
  let ?ys = "sort_key f xs"
  from assms obtain i where i: "i < length ?ys" "P (?ys ! i)" "r = ?ys ! i" "\<forall>j<i. \<not> P (?ys ! j)"
    by (auto simp: find_Some_iff)
  have srt: "sorted (map f ?ys)" by simp
  have "r \<in> set xs" using i(1,3) by (metis nth_mem set_sort)
  moreover have "f r \<le> f y" if "y \<in> set xs" "P y" for y
  proof -
    from that(1) have "y \<in> set ?ys" by simp
    then obtain k where k: "k < length ?ys" "?ys ! k = y" by (metis in_set_conv_nth)
    with that(2) i(4) have "i \<le> k" by (metis not_le_imp_less)
    then have "map f ?ys ! i \<le> map f ?ys ! k"
      using srt k(1) by (simp add: sorted_iff_nth_mono del: sorted_sort_key)
    then show ?thesis using i k by simp
  qed
  ultimately show ?thesis using i(2,3) by blast
qed

text \<open>
  C3. For every list of rules and every quantity: a rule returned by
  \<^verbatim>\<open>findApplicableVolumeRule\<close> is one of the rules, qualifies
  (\<open>quantity \<ge> minQuantity\<close>, and \<open>maxQuantity\<close> is null or \<open>quantity \<le> maxQuantity\<close>) and
  no qualifying rule has a higher \<open>minQuantity\<close>; nothing is returned exactly when no rule
  qualifies; and for the rules 3 to 5 at 10% and 6 and more at 20%, the quantity 6 selects
  the 20% rule.
\<close>

theorem findApplicableVolumeRule_highest:
  "(findApplicableVolumeRule rules q = Some r \<longrightarrow>
       r \<in> set rules
       \<and> q \<ge> vr_minQuantity r \<and> (case vr_maxQuantity r of None \<Rightarrow> True | Some m \<Rightarrow> q \<le> m)
       \<and> (\<forall>r' \<in> set rules.
            q \<ge> vr_minQuantity r' \<and> (case vr_maxQuantity r' of None \<Rightarrow> True | Some m \<Rightarrow> q \<le> m)
            \<longrightarrow> vr_minQuantity r' \<le> vr_minQuantity r))
   \<and> (findApplicableVolumeRule rules q = None \<longleftrightarrow>
        (\<forall>r' \<in> set rules.
           \<not> (q \<ge> vr_minQuantity r'
               \<and> (case vr_maxQuantity r' of None \<Rightarrow> True | Some m \<Rightarrow> q \<le> m))))
   \<and> findApplicableVolumeRule [percentRule 3 (Some 5) 10, percentRule 6 None 20] 6
        = Some (percentRule 6 None 20)"
proof -
  have applies: "ruleApplies q x \<longleftrightarrow>
      (q \<ge> vr_minQuantity x \<and> (case vr_maxQuantity x of None \<Rightarrow> True | Some m \<Rightarrow> q \<le> m))" for x
    by (simp add: ruleApplies_def)
  have found: "r \<in> set rules \<and> ruleApplies q r
        \<and> (\<forall>r' \<in> set rules. ruleApplies q r' \<longrightarrow> vr_minQuantity r' \<le> vr_minQuantity r)"
    if "findApplicableVolumeRule rules q = Some r"
    using find_sort_key_least [of "ruleApplies q" "\<lambda>x. - vr_minQuantity x" rules r] that
    by (simp add: findApplicableVolumeRule_def sortedRules_def)
  have none_iff: "findApplicableVolumeRule rules q = None \<longleftrightarrow> (\<forall>r' \<in> set rules. \<not> ruleApplies q r')"
    by (auto simp add: findApplicableVolumeRule_def sortedRules_def find_None_iff)
  have overlap: "findApplicableVolumeRule [percentRule 3 (Some 5) 10, percentRule 6 None 20] 6
        = Some (percentRule 6 None 20)"
    by (simp add: findApplicableVolumeRule_def sortedRules_def ruleApplies_def percentRule_def)
  show ?thesis
  proof (intro conjI impI)
    assume "findApplicableVolumeRule rules q = Some r"
    note f = found [OF this]
    from f show "r \<in> set rules" by simp
    from f show "q \<ge> vr_minQuantity r" by (simp add: applies)
    from f show "case vr_maxQuantity r of None \<Rightarrow> True | Some m \<Rightarrow> q \<le> m" by (simp add: applies)
    from f show "\<forall>r' \<in> set rules.
            q \<ge> vr_minQuantity r' \<and> (case vr_maxQuantity r' of None \<Rightarrow> True | Some m \<Rightarrow> q \<le> m)
            \<longrightarrow> vr_minQuantity r' \<le> vr_minQuantity r"
      by (simp add: applies)
  next
    show "findApplicableVolumeRule rules q = None \<longleftrightarrow>
        (\<forall>r' \<in> set rules.
           \<not> (q \<ge> vr_minQuantity r'
               \<and> (case vr_maxQuantity r' of None \<Rightarrow> True | Some m \<Rightarrow> q \<le> m)))"
      by (simp add: none_iff applies)
  next
    show "findApplicableVolumeRule [percentRule 3 (Some 5) 10, percentRule 6 None 20] 6
        = Some (percentRule 6 None 20)"
      by (rule overlap)
  qed
qed

theorem findApplicableVolumeRule_highest_witness:
  "findApplicableVolumeRule
      [percentRule 1 (Some 2) 0, percentRule 3 (Some 5) 10, percentRule 6 None 20] 4
     = Some (percentRule 3 (Some 5) 10)
   \<and> percentRule 3 (Some 5) 10
       \<in> set [percentRule 1 (Some 2) 0, percentRule 3 (Some 5) 10, percentRule 6 None 20]
   \<and> vr_minQuantity (percentRule 1 (Some 2) 0) \<le> vr_minQuantity (percentRule 3 (Some 5) 10)
   \<and> findApplicableVolumeRule [percentRule 3 (Some 5) 10] 2 = None"
  using findApplicableVolumeRule_highest
          [of "[percentRule 1 (Some 2) 0, percentRule 3 (Some 5) 10, percentRule 6 None 20]" 4
              "percentRule 3 (Some 5) 10"]
        findApplicableVolumeRule_highest [of "[percentRule 3 (Some 5) 10]" 2 "percentRule 3 (Some 5) 10"]
  by (simp add: findApplicableVolumeRule_def sortedRules_def ruleApplies_def percentRule_def)

subsection \<open>Tiered bundles\<close>

text \<open>
  C4. For a bundle of type Tiered: without a tier id (none given, or the empty string, which
  \<^verbatim>\<open>if (tierId)\<close> treats alike) the result is invalid with the one error
  "Please select a tier"; with a tier id that no tier of the bundle has, it is invalid with
  the one error "Invalid tier selected" and the discounted price is the original price; with
  the id of a tier, the discounted price is \<open>tier.price * quantity\<close>, also when the total
  selected quantity differs from \<open>tier.productCount\<close>, in which case the result is invalid
  with the error naming the tier and its count; when the counts agree the result is valid.
\<close>

theorem tiered_pricing:
  assumes "b_type bundle = TIERED"
  shows
   "(tierId = None \<or> tierId = Some [] \<longrightarrow>
       \<not> isValid (calculateBundlePricing bundle sel tierId q)
       \<and> validationErrors (calculateBundlePricing bundle sel tierId q)
           = [[Lit ''Please select a tier'']])
    \<and> (tierId = Some t \<and> t \<noteq> [] \<and> (\<forall>x \<in> set (b_tiers bundle). bt_id x \<noteq> t) \<longrightarrow>
       \<not> isValid (calculateBundlePricing bundle sel tierId q)
       \<and> validationErrors (calculateBundlePricing bundle sel tierId q)
           = [[Lit ''Invalid tier selected'']]
       \<and> discountedPrice (calculateBundlePricing bundle sel tierId q)
           = originalPrice (calculateBundlePricing bundle sel tierId q))
    \<and> (tierId = Some t \<and> t \<noteq> [] \<and> List.find (\<lambda>x. bt_id x = t) (b_tiers bundle) = Some tier \<longrightarrow>
       discountedPrice (calculateBundlePricing bundle sel tierId q) = bt_price tier * q
       \<and> (totalSelected sel \<noteq> bt_productCount tier \<longrightarrow>
            \<not> isValid (calculateBundlePricing bundle sel tierId q)
            \<and> validationErrors (calculateBundlePricing bundle sel tierId q) =
                [[Lit (bt_name tier), Lit '' requires exactly '', Num (bt_productCount tier),
                  Lit '' products'']])
       \<and> (totalSelected sel = bt_productCount tier \<longrightarrow>
            isValid (calculateBundlePricing bundle sel tierId q)
            \<and> validationErrors (calculateBundlePricing bundle sel tierId q) = []))"
proof -
  have absent: "\<not> tierGiven tierId" if "tierId = None \<or> tierId = Some []"
    using that by (auto simp: tierGiven_def)
  have unknown: "findTier (b_tiers bundle) (Some t) = None"
    if "\<forall>x \<in> set (b_tiers bundle). bt_id x \<noteq> t"
    using that by (simp add: findTier_def find_None_iff)
  show ?thesis
    using assms absent unknown
    by (auto simp add: calculateBundlePricing_def switchType_def caseTiered_def initialVars_def
          BundleType_defs Let_def tierGiven_def findTier_def)
qed

theorem tiered_pricing_witness:
  "b_type tieredBundle = TIERED
   \<and> List.find (\<lambda>x. bt_id x = ''t1'') (b_tiers tieredBundle) = Some tierT1
   \<and> totalSelected threeItems = bt_productCount tierT1
   \<and> discountedPrice (calculateBundlePricing tieredBundle threeItems (Some ''t1'') 1) = 65
   \<and> isValid (calculateBundlePricing tieredBundle threeItems (Some ''t1'') 1)
   \<and> totalSelected twoItems \<noteq> bt_productCount tierT1
   \<and> discountedPrice (calculateBundlePricing tieredBundle twoItems (Some ''t1'') 2) = 130
   \<and> \<not> isValid (calculateBundlePricing tieredBundle twoItems (Some ''t1'') 2)
   \<and> validationErrors (calculateBundlePricing tieredBundle twoItems (Some ''t9'') 1)
       = [[Lit ''Invalid tier selected'']]
   \<and> validationErrors (calculateBundlePricing tieredBundle twoItems None 1)
       = [[Lit ''Please select a tier'']]"
  using tiered_pricing [of tieredBundle "Some ''t1''" threeItems 1 "''t1''" tierT1]
        tiered_pricing [of tieredBundle "Some ''t1''" twoItems 2 "''t1''" tierT1]
        tiered_pricing [of tieredBundle "Some ''t9''" twoItems 1 "''t9''" tierT1]
        tiered_pricing [of tieredBundle None twoItems 1 "''t9''" tierT1]
  by (simp add: example_defs totalSelected_def BundleType_defs)

subsection \<open>Mix and match bundles\<close>

text \<open>
  C5, as the claim states it, fails: a bound that is set to 0 is not checked
  (\<^verbatim>\<open>bundle.maxProducts && ...\<close> is false for 0). A bundle with \<open>maxProducts = 0\<close> and a
  selection of two products is valid and has no error.
\<close>

theorem mixMatch_zero_bound_counterexample:
  "b_type mixMatchMax0 = MIX_MATCH
   \<and> b_maxProducts mixMatchMax0 = Some 0
   \<and> totalSelected twoItems = 2
   \<and> isValid (calculateBundlePricing mixMatchMax0 twoItems None 1)
   \<and> validationErrors (calculateBundlePricing mixMatchMax0 twoItems None 1) = []"
  by (simp add: pricing_defs example_defs BundleType_defs)

text \<open>
  C5, amended. For a bundle of type MixMatch, the total selected quantity is compared with
  each bound that is set and not 0: the errors are "Minimum m products required" when the
  total is below such a \<open>minProducts\<close>, followed by "Maximum m products allowed" when it is
  above such a \<open>maxProducts\<close>, and nothing else; the result is valid exactly when there is no
  error; and in every case the discounted price is the discount primitive applied to the
  original price when a discount type and value are configured (the original price
  otherwise), so it reflects the discount also when the result is invalid.
\<close>

theorem mixMatch_bounds:
  assumes "b_type bundle = MIX_MATCH"
  shows
   "validationErrors (calculateBundlePricing bundle sel tierId q) =
      (case b_minProducts bundle of
         Some m \<Rightarrow> if m \<noteq> 0 \<and> totalSelected sel < m
                    then [[Lit ''Minimum '', Num m, Lit '' products required'']] else []
       | None \<Rightarrow> [])
      @ (case b_maxProducts bundle of
           Some m \<Rightarrow> if m \<noteq> 0 \<and> totalSelected sel > m
                      then [[Lit ''Maximum '', Num m, Lit '' products allowed'']] else []
         | None \<Rightarrow> [])
    \<and> (isValid (calculateBundlePricing bundle sel tierId q)
         \<longleftrightarrow> validationErrors (calculateBundlePricing bundle sel tierId q) = [])
    \<and> discountedPrice (calculateBundlePricing bundle sel tierId q) =
        (case (b_discountType bundle, b_discountValue bundle) of
            (Some t, Some v) \<Rightarrow>
              dr_discountedPrice
                (applyDiscount (originalPrice (calculateBundlePricing bundle sel tierId q)) (Some t) v)
          | _ \<Rightarrow> originalPrice (calculateBundlePricing bundle sel tierId q))"
  using assms
  by (simp add: calculateBundlePricing_def switchType_def caseMixMatch_def applyConfiguredDiscount_def
        initialVars_def applyDiscount_def DiscountType_defs BundleType_defs Let_def
        belowMin_def aboveMax_def minError_def maxError_def split: option.splits)

theorem mixMatch_bounds_witness:
  "b_type mixMatch3to5 = MIX_MATCH
   \<and> totalSelected twoItems = 2
   \<and> validationErrors (calculateBundlePricing mixMatch3to5 twoItems None 1)
       = [[Lit ''Minimum '', Num 3, Lit '' products required'']]
   \<and> \<not> isValid (calculateBundlePricing mixMatch3to5 twoItems None 1)
   \<and> originalPrice (calculateBundlePricing mixMatch3to5 twoItems None 1) = 55
   \<and> discountedPrice (calculateBundlePricing mixMatch3to5 twoItems None 1) = 55 * (1 - 15 / 100)"
  using mixMatch_bounds [of mixMatch3to5 twoItems None 1]
        applyDiscount_percentage [of 55 15]
  by (simp add: example_defs totalSelected_def BundleType_defs calculateBundlePricing_def
        sumItemTotals_def Let_def)

subsection \<open>Per-item prices\<close>

text \<open>
  C6. When a discount was applied and the original price is positive, every per-item entry
  has the item's price times \<open>discountedPrice / originalPrice\<close> as its discounted price;
  when no discount was applied or the original price is 0, every entry keeps the item's
  price as its discounted price.
\<close>

theorem itemPrices_proportional:
  "(appliedDiscount (calculateBundlePricing bundle sel tierId q) \<noteq> None
      \<and> originalPrice (calculateBundlePricing bundle sel tierId q) > 0 \<longrightarrow>
    itemPrices (calculateBundlePricing bundle sel tierId q) =
      map (\<lambda>item. \<lparr>ip_productId = si_productId item, ip_variantId = si_variantId item,
                    ip_originalPrice = si_price item,
                    ip_discountedPrice = si_price item *
                       (discountedPrice (calculateBundlePricing bundle sel tierId q)
                         / originalPrice (calculateBundlePricing bundle sel tierId q)),
                    ip_quantity = si_quantity item\<rparr>) sel)
   \<and> (appliedDiscount (calculateBundlePricing bundle sel tierId q) = None
        \<or> originalPrice (calculateBundlePricing bundle sel tierId q) = 0 \<longrightarrow>
      itemPrices (calculateBundlePricing bundle sel tierId q) =
      map (\<lambda>item. \<lparr>ip_productId = si_productId item, ip_variantId = si_variantId item,
                    ip_originalPrice = si_price item,
                    ip_discountedPrice = si_price item,
                    ip_quantity = si_quantity item\<rparr>) sel)"
  by (auto simp add: calculateBundlePricing_def updateItemPrices_def initialItemPrice_def Let_def)

theorem itemPrices_proportional_witness:
  "appliedDiscount (calculateBundlePricing fixed50 twoItems None 1) \<noteq> None
   \<and> originalPrice (calculateBundlePricing fixed50 twoItems None 1) > 0
   \<and> map ip_discountedPrice (itemPrices (calculateBundlePricing fixed50 twoItems None 1))
       = [30 * (50 / 55), 25 * (50 / 55)]
   \<and> appliedDiscount (calculateBundlePricing (bundleOfType ''GIFT'') twoItems None 1) = None
   \<and> map ip_discountedPrice (itemPrices (calculateBundlePricing (bundleOfType ''GIFT'') twoItems None 1))
       = [30, 25]"
  using itemPrices_proportional [of fixed50 twoItems None 1]
        itemPrices_proportional [of "bundleOfType ''GIFT''" twoItems None 1]
  by (simp add: pricing_defs example_defs BundleType_defs)

subsection \<open>Savings percent\<close>

text \<open>
  In \<^verbatim>\<open>calculateBundlePricing\<close> the division is guarded: the savings percent is 0
  whenever the original price is not positive, and \<open>savings / originalPrice * 100\<close>
  otherwise.
\<close>

lemma savingsPercent_guarded:
  "savingsPercent (calculateBundlePricing bundle sel tierId q) =
     (if originalPrice (calculateBundlePricing bundle sel tierId q) > 0
      then (originalPrice (calculateBundlePricing bundle sel tierId q)
              - discountedPrice (calculateBundlePricing bundle sel tierId q))
           / originalPrice (calculateBundlePricing bundle sel tierId q) * 100
      else 0)"
  by (simp add: calculateBundlePricing_def Let_def)

text \<open>
  C7 at \<^verbatim>\<open>formatSavings\<close>: the division there has no guard. With the original price 0
  the percent is never 0: it is \<^verbatim>\<open>NaN\<close> when the discounted price is 0 too, and an
  infinity otherwise, so \<^verbatim>\<open>formatSavings(0, 0, true)\<close> is "Save NaN%".
\<close>

theorem formatSavings_unguarded:
  "savingsPercentOf 0 d = (if d = 0 then NaN else if d < 0 then PosInfinity else NegInfinity)
   \<and> savingsPercentOf 0 d \<noteq> Finite 0
   \<and> formatSavings 0 0 True = [Lit ''Save '', ToFixed 0 NaN, Lit ''%'']"
  by (simp add: formatSavings_def savingsPercentOf_def js_div_def)

subsection \<open>\<^verbatim>\<open>validateBundle\<close>\<close>

text \<open>The result is valid exactly when the list of errors is empty.\<close>

lemma validateBundle_isValid_iff:
  "res_isValid (validateBundle parseDate bundle) \<longleftrightarrow> res_errors (validateBundle parseDate bundle) = []"
  by (simp add: validateBundle_def Let_def)

text \<open>A Fixed bundle whose price and discount type are both \<^verbatim>\<open>null\<close> gets the error.\<close>

lemma validateBundle_fixed_null:
  assumes "pb_type bundle = Val FIXED" and "pb_price bundle = Null" and "pb_discountType bundle = Null"
  shows "mkError ''price'' ''Fixed bundles must have a price or discount'' ''REQUIRED''
           \<in> set (res_errors (validateBundle parseDate bundle))
         \<and> \<not> res_isValid (validateBundle parseDate bundle)"
  using assms by (simp add: validateBundle_def typeErrors_def Let_def)

text \<open>
  C8 at a Fixed bundle whose price and discount type are missing (\<^verbatim>\<open>undefined\<close>, as
  the create route passes them when the request body has neither): \<^verbatim>\<open>=== null\<close> is
  false for both, no error is pushed and the bundle is valid.
\<close>

theorem validateBundle_fixed_undefined:
  "pb_type createRequest = Val FIXED
   \<and> pb_price createRequest = Undefined
   \<and> pb_discountType createRequest = Undefined
   \<and> validateBundle parseDate createRequest = \<lparr>res_isValid = True, res_errors = []\<rparr>"
  by (simp add: validate_defs createRequest_def kitItem_def BundleType_defs)

subsection \<open>The same-product restriction of volume bundles\<close>

text \<open>
  The admin pricing-validate route reports a selection of several products for a volume
  bundle that applies to the same product only.
\<close>

lemma pricingValidateVolume_same_product:
  assumes "b_applyToSameProduct bundle" and "length (remdups (map si_productId sel)) > 1"
  shows "\<not> pvr_isValid (pricingValidateVolume bundle sel q)
         \<and> mkError ''selectedItems'' ''Volume discount applies only to the same product''
               ''SAME_PRODUCT_REQUIRED''
             \<in> set (pvr_errors (pricingValidateVolume bundle sel q))"
  using assms by (simp add: pricingValidateVolume_def pvSameProduct_def Let_def split: prod.splits)

text \<open>
  C9 at the storefront validate route: for a volume bundle with \<open>applyToSameProduct\<close>, a
  selection of a shirt and a mug (two product ids), both in stock, is answered as valid, with
  no error and with the discounted pricing.
\<close>

theorem storefrontValidate_ignores_same_product:
  "b_type volumeSameProduct = VOLUME
   \<and> b_applyToSameProduct volumeSameProduct
   \<and> map si_productId twoItems = [''shirt'', ''mug'']
   \<and> sv_status (storefrontValidate inStock volumeSameProduct twoItems None 1) = 200
   \<and> sv_isValid (storefrontValidate inStock volumeSameProduct twoItems None 1)
   \<and> sv_errors (storefrontValidate inStock volumeSameProduct twoItems None 1) = []
   \<and> map_option discountedPrice
        (sv_pricing (storefrontValidate inStock volumeSameProduct twoItems None 1)) = Some (99 / 2)"
  by (simp add: storefront_defs pricing_defs example_defs BundleType_defs DiscountType_defs)

subsection \<open>Bundles of an unknown type\<close>

text \<open>
  C10. For a bundle whose type is none of FIXED, MIX_MATCH, VOLUME and TIERED, the result is
  valid, has no validation error and no applied discount, its discounted price is the
  original price and its savings amount is 0.
\<close>

theorem unknown_type_undiscounted:
  assumes "b_type bundle \<notin> {FIXED, MIX_MATCH, VOLUME, TIERED}"
  shows "isValid (calculateBundlePricing bundle sel tierId q)
    \<and> validationErrors (calculateBundlePricing bundle sel tierId q) = []
    \<and> appliedDiscount (calculateBundlePricing bundle sel tierId q) = None
    \<and> discountedPrice (calculateBundlePricing bundle sel tierId q)
        = originalPrice (calculateBundlePricing bundle sel tierId q)
    \<and> savingsAmount (calculateBundlePricing bundle sel tierId q) = 0"
proof -
  from assms have "switchType bundle sel tierId q (sumItemTotals sel * q)
      = initialVars (sumItemTotals sel * q)"
    by (simp add: switchType_def)
  then show ?thesis
    by (simp add: calculateBundlePricing_def initialVars_def Let_def)
qed

theorem unknown_type_undiscounted_witness:
  "b_type (bundleOfType ''GIFT'') \<notin> {FIXED, MIX_MATCH, VOLUME, TIERED}
   \<and> isValid (calculateBundlePricing (bundleOfType ''GIFT'') twoItems (Some ''t1'') 2)
   \<and> validationErrors (calculateBundlePricing (bundleOfType ''GIFT'') twoItems (Some ''t1'') 2) = []
   \<and> appliedDiscount (calculateBundlePricing (bundleOfType ''GIFT'') twoItems (Some ''t1'') 2) = None
   \<and> originalPrice (calculateBundlePricing (bundleOfType ''GIFT'') twoItems (Some ''t1'') 2) = 110
   \<and> discountedPrice (calculateBundlePricing (bundleOfType ''GIFT'') twoItems (Some ''t1'') 2) = 110
   \<and> savingsAmount (calculateBundlePricing (bundleOfType ''GIFT'') twoItems (Some ''t1'') 2) = 0"
  using unknown_type_undiscounted [of "bundleOfType ''GIFT''" twoItems "Some ''t1''" 2]
  by (simp add: example_defs BundleType_defs calculateBundlePricing_def sumItemTotals_def Let_def)

end
